theory Spec2Isabelle
  imports Complex_Main "HOL-Library.Sublist"
begin

section \<open>The gateway of app/main.py\<close>

text \<open>
  The gateway forwards chat requests to an Ollama server over HTTP. The HTTP client
  (\<^verbatim>\<open>requests\<close>), the JSON decoder and the web framework are libraries; what they hand to the
  code of \<^verbatim>\<open>app/main.py\<close> is the input of the model: the reply to a request, the lines
  of a streamed body, and what decoding one line gives or raises.
\<close>

subsection \<open>Python values and exceptions\<close>

text \<open>
  The values \<^verbatim>\<open>json.loads\<close> builds and the handlers return. A \<^verbatim>\<open>str\<close> is kept as the bytes
  of its UTF-8 encoding, so concatenation, emptiness, equality and the search for an ASCII
  substring are those of the list. A \<^verbatim>\<open>dict\<close> is the list of its items in insertion order;
  lookup takes the first item of a key (Python keeps keys distinct).
\<close>

datatype pyval =
    PNone
  | PBool bool
  | PInt int
  | PFloat real
  | PStr string
  | PList "pyval list"
  | PDict "(string \<times> pyval) list"

text \<open>
  The exception classes that occur. \<open>Timeout\<close> stands for every instance of
  \<^verbatim>\<open>requests.Timeout\<close>, \<open>RequestException\<close> for every other instance of
  \<^verbatim>\<open>requests.RequestException\<close> (connection errors, the \<^verbatim>\<open>HTTPError\<close> of
  \<^verbatim>\<open>raise_for_status\<close>, a body that is not JSON in \<^verbatim>\<open>r.json()\<close>); both carry
  \<^verbatim>\<open>str(e)\<close>. \<open>HTTPException\<close> is FastAPI's, with its status code and detail.
\<close>

datatype exn =
    Timeout string
  | RequestException string
  | JSONDecodeError
  | UnicodeDecodeError
  | ValueError
  | TypeError
  | KeyError
  | AttributeError
  | HTTPException nat string

text \<open>Truth value testing: \<^verbatim>\<open>if v\<close>, \<^verbatim>\<open>v or d\<close>.\<close>

fun truthy :: "pyval \<Rightarrow> bool" where
  "truthy PNone = False"
| "truthy (PBool b) = b"
| "truthy (PInt i) = (i \<noteq> 0)"
| "truthy (PFloat x) = (x \<noteq> 0)"
| "truthy (PStr s) = (s \<noteq> [])"
| "truthy (PList xs) = (xs \<noteq> [])"
| "truthy (PDict items) = (items \<noteq> [])"

text \<open>
  \<^verbatim>\<open>k in obj\<close> for a string \<open>k\<close>: a key of a dict, an element of a list, a substring of a
  string; every other JSON value is not iterable.
\<close>

fun py_in :: "string \<Rightarrow> pyval \<Rightarrow> exn + bool" where
  "py_in k (PDict items) = Inr (map_of items k \<noteq> None)"
| "py_in k (PList xs) = Inr (List.member xs (PStr k))"
| "py_in k (PStr s) = Inr (sublist k s)"
| "py_in k PNone = Inl TypeError"
| "py_in k (PBool b) = Inl TypeError"
| "py_in k (PInt i) = Inl TypeError"
| "py_in k (PFloat x) = Inl TypeError"

text \<open>\<^verbatim>\<open>obj[k]\<close> for a string \<open>k\<close>: only a dict can be indexed by a string.\<close>

fun py_getitem :: "pyval \<Rightarrow> string \<Rightarrow> exn + pyval" where
  "py_getitem (PDict items) k = (case map_of items k of Some v \<Rightarrow> Inr v | None \<Rightarrow> Inl KeyError)"
| "py_getitem PNone k = Inl TypeError"
| "py_getitem (PBool b) k = Inl TypeError"
| "py_getitem (PInt i) k = Inl TypeError"
| "py_getitem (PFloat x) k = Inl TypeError"
| "py_getitem (PStr s) k = Inl TypeError"
| "py_getitem (PList xs) k = Inl TypeError"

text \<open>\<^verbatim>\<open>obj.get(k, d)\<close>: a method of dicts only.\<close>

fun py_get :: "pyval \<Rightarrow> string \<Rightarrow> pyval \<Rightarrow> exn + pyval" where
  "py_get (PDict items) k d = (case map_of items k of Some v \<Rightarrow> Inr v | None \<Rightarrow> Inr d)"
| "py_get PNone k d = Inl AttributeError"
| "py_get (PBool b) k d = Inl AttributeError"
| "py_get (PInt i) k d = Inl AttributeError"
| "py_get (PFloat x) k d = Inl AttributeError"
| "py_get (PStr s) k d = Inl AttributeError"
| "py_get (PList xs) k d = Inl AttributeError"

text \<open>\<^verbatim>\<open>"".join(chunks)\<close>: every item must be a \<^verbatim>\<open>str\<close>.\<close>

fun join :: "pyval list \<Rightarrow> exn + string" where
  "join [] = Inr []"
| "join (PStr s # vs) = (case join vs of Inl e \<Rightarrow> Inl e | Inr t \<Rightarrow> Inr (s @ t))"
| "join (v # vs) = Inl TypeError"

subsection \<open>The upstream server as the code sees it\<close>

text \<open>
  One line of \<^verbatim>\<open>r.iter_lines()\<close>: the empty bytes (\<^verbatim>\<open>not line\<close> holds), or a line on which
  \<^verbatim>\<open>json.loads(line.decode("utf-8"))\<close> returns a value, or one on which it raises.
\<close>

datatype line =
    Empty
  | Decodes pyval
  | Fails exn

text \<open>
  The response object \<^verbatim>\<open>r\<close>: what \<^verbatim>\<open>r.raise_for_status()\<close> raises (\<open>None\<close>: it returns).
  A streamed response has the lines \<^verbatim>\<open>r.iter_lines()\<close> yields and the exception that ends
  the iteration after them (\<open>None\<close>: the body ends); the response to \<^verbatim>\<open>/api/tags\<close> has
  what \<^verbatim>\<open>r.json()\<close> returns or raises.
\<close>

record response =
  raise_for_status :: "exn option"

record stream_response = response +
  iter_lines :: "line list"
  iter_lines_raises :: "exn option"

record json_response = response +
  json :: "exn + pyval"

text \<open>
  The server behind \<^verbatim>\<open>OLLAMA_URL\<close>: its reply to a payload posted to \<^verbatim>\<open>/api/generate\<close>
  (a function: the same payload gets the same reply) and the payloads posted so far.
  \<open>Inl e\<close> is \<^verbatim>\<open>requests.post\<close> raising \<open>e\<close>.
\<close>

record upstream =
  generate :: "pyval \<Rightarrow> exn + stream_response"
  post_calls :: "pyval list"

definition requests_post :: "pyval \<Rightarrow> upstream \<Rightarrow> (exn + stream_response) \<times> upstream" where
  "requests_post payload u = (generate u payload, u\<lparr>post_calls := post_calls u @ [payload]\<rparr>)"

subsection \<open>Payload, aggregator and relay\<close>

definition make_payload :: "string \<Rightarrow> string \<Rightarrow> real \<Rightarrow> real \<Rightarrow> int \<Rightarrow> pyval" where
  "make_payload prompt model temperature top_p max_tokens =
     (let options = PDict
        [(''temperature'', PFloat temperature),
         (''top_p'', PFloat top_p),
         (''num_predict'', PInt max_tokens)]
      in PDict [(''model'', PStr model), (''prompt'', PStr prompt), (''options'', options)])"

text \<open>The loop of \<^verbatim>\<open>_chat_full\<close> over the lines, with the list \<^verbatim>\<open>chunks\<close>.\<close>

fun chat_full_loop :: "line list \<Rightarrow> pyval list \<Rightarrow> exn + pyval list" where
  "chat_full_loop [] chunks = Inr chunks"
| "chat_full_loop (Empty # rest) chunks = chat_full_loop rest chunks"
| "chat_full_loop (Fails e # rest) chunks =
     (if e = JSONDecodeError then chat_full_loop rest chunks else Inl e)"
| "chat_full_loop (Decodes obj # rest) chunks =
     (case py_in ''response'' obj of
        Inl e \<Rightarrow> if e = JSONDecodeError then chat_full_loop rest chunks else Inl e
      | Inr False \<Rightarrow> chat_full_loop rest chunks
      | Inr True \<Rightarrow>
          (case py_getitem obj ''response'' of
             Inl e \<Rightarrow> if e = JSONDecodeError then chat_full_loop rest chunks else Inl e
           | Inr v \<Rightarrow> chat_full_loop rest (chunks @ [v])))"

text \<open>The two \<^verbatim>\<open>except\<close> clauses of \<^verbatim>\<open>_chat_full\<close>, in their order.\<close>

fun chat_full_except :: "exn \<Rightarrow> exn" where
  "chat_full_except (Timeout m) = HTTPException 504 ''Timeout talking to Ollama''"
| "chat_full_except (RequestException m) = HTTPException 502 (''Ollama error: '' @ m)"
| "chat_full_except e = e"

definition chat_full ::
  "string \<Rightarrow> string \<Rightarrow> real \<Rightarrow> real \<Rightarrow> int \<Rightarrow> upstream \<Rightarrow> (exn + pyval) \<times> upstream" where
  "chat_full prompt model temperature top_p max_tokens u =
     (let payload = make_payload prompt model temperature top_p max_tokens;
          (reply, u') = requests_post payload u;
          tried =
            (case reply of
               Inl e \<Rightarrow> Inl e
             | Inr r \<Rightarrow>
                 (case raise_for_status r of
                    Some e \<Rightarrow> Inl e
                  | None \<Rightarrow>
                      (case chat_full_loop (iter_lines r) [] of
                         Inl e \<Rightarrow> Inl e
                       | Inr chunks \<Rightarrow>
                           (case iter_lines_raises r of
                              Some e \<Rightarrow> Inl e
                            | None \<Rightarrow>
                                (case join chunks of
                                   Inl e \<Rightarrow> Inl e
                                 | Inr s \<Rightarrow>
                                     Inr (PDict
                                       [(''model'', PStr model),
                                        (''prompt'', PStr prompt),
                                        (''temperature'', PFloat temperature),
                                        (''top_p'', PFloat top_p),
                                        (''max_tokens'', PInt max_tokens),
                                        (''response'', PStr s)]))))))
      in (case tried of Inl e \<Rightarrow> (Inl (chat_full_except e), u') | Inr res \<Rightarrow> (Inr res, u')))"

text \<open>
  The generator \<^verbatim>\<open>_chat_stream\<close>, run to its end: the fragments it yields, in order, and
  the exception it dies with (\<open>None\<close>: it returns). First its loop over the lines.
\<close>

fun chat_stream_loop :: "line list \<Rightarrow> pyval list \<times> exn option" where
  "chat_stream_loop [] = ([], None)"
| "chat_stream_loop (Empty # rest) = chat_stream_loop rest"
| "chat_stream_loop (Fails e # rest) =
     (if e = JSONDecodeError then chat_stream_loop rest else ([], Some e))"
| "chat_stream_loop (Decodes obj # rest) =
     (case py_in ''response'' obj of
        Inl e \<Rightarrow> if e = JSONDecodeError then chat_stream_loop rest else ([], Some e)
      | Inr False \<Rightarrow> chat_stream_loop rest
      | Inr True \<Rightarrow>
          (case py_getitem obj ''response'' of
             Inl e \<Rightarrow> if e = JSONDecodeError then chat_stream_loop rest else ([], Some e)
           | Inr v \<Rightarrow> (let (ys, raised) = chat_stream_loop rest in (v # ys, raised))))"

text \<open>The two \<^verbatim>\<open>except\<close> clauses of \<^verbatim>\<open>_chat_stream\<close>: what they yield, and what is left raised.\<close>

fun chat_stream_except :: "exn \<Rightarrow> pyval list \<times> exn option" where
  "chat_stream_except (Timeout m) = ([PStr ''[Timeout talking to Ollama]''], None)"
| "chat_stream_except (RequestException m) = ([PStr (''[Ollama error: '' @ m @ '']'')], None)"
| "chat_stream_except e = ([], Some e)"

definition chat_stream ::
  "string \<Rightarrow> string \<Rightarrow> real \<Rightarrow> real \<Rightarrow> int \<Rightarrow> upstream \<Rightarrow> (pyval list \<times> exn option) \<times> upstream" where
  "chat_stream prompt model temperature top_p max_tokens u =
     (let payload = make_payload prompt model temperature top_p max_tokens;
          (reply, u') = requests_post payload u;
          (ys, raised) =
            (case reply of
               Inl e \<Rightarrow> ([], Some e)
             | Inr r \<Rightarrow>
                 (case raise_for_status r of
                    Some e \<Rightarrow> ([], Some e)
                  | None \<Rightarrow>
                      (case chat_stream_loop (iter_lines r) of
                         (ys, Some e) \<Rightarrow> (ys, Some e)
                       | (ys, None) \<Rightarrow> (ys, iter_lines_raises r))))
      in (case raised of
            None \<Rightarrow> ((ys, None), u')
          | Some e \<Rightarrow> (let (zs, left) = chat_stream_except e in ((ys @ zs, left), u'))))"

subsection \<open>The handlers\<close>

text \<open>
  An argument of a handler that has a default in its signature: \<open>None\<close> when the query string
  does not give the parameter, and then the default of the signature is the value.
\<close>

fun arg_default :: "'a option \<Rightarrow> 'a \<Rightarrow> 'a" where
  "arg_default None d = d"
| "arg_default (Some v) d = v"

definition chat_get ::
  "string \<Rightarrow> string option \<Rightarrow> real option \<Rightarrow> real option \<Rightarrow> int option \<Rightarrow> upstream
     \<Rightarrow> (exn + pyval) \<times> upstream" where
  "chat_get prompt model temperature top_p max_tokens u =
     chat_full prompt
       (arg_default model ''phi3:mini'')
       (arg_default temperature 0.7)
       (arg_default top_p 0.9)
       (arg_default max_tokens 512) u"

text \<open>
  The body of \<^verbatim>\<open>POST /chat\<close> is a \<^verbatim>\<open>ChatIn\<close>: \<^verbatim>\<open>prompt\<close>, \<^verbatim>\<open>model\<close>, \<^verbatim>\<open>temperature\<close>,
  \<^verbatim>\<open>top_p\<close>, \<^verbatim>\<open>max_tokens\<close>, in this order; all but the prompt are \<^verbatim>\<open>Optional\<close>, so an
  attribute can be \<^verbatim>\<open>None\<close>. A field of the JSON body is left out, \<^verbatim>\<open>null\<close>, or given;
  the class puts its default where the field is left out.
\<close>

datatype ChatIn = ChatIn string "string option" "real option" "real option" "int option"

datatype 'a field = Omitted | Null | Given 'a

fun optional_field :: "'a field \<Rightarrow> 'a \<Rightarrow> 'a option" where
  "optional_field Omitted d = Some d"
| "optional_field Null d = None"
| "optional_field (Given v) d = Some v"

definition ChatIn_of_body ::
  "string \<Rightarrow> string field \<Rightarrow> real field \<Rightarrow> real field \<Rightarrow> int field \<Rightarrow> ChatIn" where
  "ChatIn_of_body prompt model temperature top_p max_tokens =
     ChatIn prompt
       (optional_field model ''phi3:mini'')
       (optional_field temperature 0.7)
       (optional_field top_p 0.9)
       (optional_field max_tokens 512)"

text \<open>\<^verbatim>\<open>x or d\<close> on an optional string, float and int.\<close>

fun or_str :: "string option \<Rightarrow> string \<Rightarrow> string" where
  "or_str None d = d"
| "or_str (Some s) d = (if s = [] then d else s)"

fun or_float :: "real option \<Rightarrow> real \<Rightarrow> real" where
  "or_float None d = d"
| "or_float (Some x) d = (if x = 0 then d else x)"

fun or_int :: "int option \<Rightarrow> int \<Rightarrow> int" where
  "or_int None d = d"
| "or_int (Some i) d = (if i = 0 then d else i)"

fun chat_post :: "ChatIn \<Rightarrow> upstream \<Rightarrow> (exn + pyval) \<times> upstream" where
  "chat_post (ChatIn prompt model temperature top_p max_tokens) u =
     chat_full prompt
       (or_str model ''phi3:mini'')
       (or_float temperature 0.7)
       (or_float top_p 0.9)
       (or_int max_tokens 512) u"


subsection \<open>The model list\<close>

text \<open>
  The comprehension \<^verbatim>\<open>[m.get("name") for m in ... if m.get("name")]\<close>: first over a list
  of items, then over whatever \<^verbatim>\<open>data.get("models", [])\<close> is. Iterating a dict gives its
  keys and a string its characters, which are strings and have no \<^verbatim>\<open>get\<close>.
\<close>

fun names_of :: "pyval list \<Rightarrow> exn + pyval list" where
  "names_of [] = Inr []"
| "names_of (m # ms) =
     (case py_get m ''name'' PNone of
        Inl e \<Rightarrow> Inl e
      | Inr v \<Rightarrow>
          (case names_of ms of
             Inl e \<Rightarrow> Inl e
           | Inr vs \<Rightarrow> Inr (if truthy v then v # vs else vs)))"

fun models_names :: "pyval \<Rightarrow> exn + pyval list" where
  "models_names (PList ms) = names_of ms"
| "models_names (PDict items) = names_of (map (\<lambda>(k, v). PStr k) items)"
| "models_names (PStr s) = (if s = [] then Inr [] else Inl AttributeError)"
| "models_names PNone = Inl TypeError"
| "models_names (PBool b) = Inl TypeError"
| "models_names (PInt i) = Inl TypeError"
| "models_names (PFloat x) = Inl TypeError"

text \<open>The \<^verbatim>\<open>except requests.RequestException\<close> of \<^verbatim>\<open>models\<close>; a timeout is one too.\<close>

fun models_except :: "exn \<Rightarrow> exn" where
  "models_except (Timeout m) = HTTPException 502 (''Ollama error: '' @ m)"
| "models_except (RequestException m) = HTTPException 502 (''Ollama error: '' @ m)"
| "models_except e = e"

text \<open>\<^verbatim>\<open>GET /models\<close>, given what \<^verbatim>\<open>requests.get\<close> of \<^verbatim>\<open>/api/tags\<close> returns or raises.\<close>

definition models :: "exn + json_response \<Rightarrow> exn + pyval" where
  "models got =
     (let tried =
        (case got of
           Inl e \<Rightarrow> Inl e
         | Inr r \<Rightarrow>
             (case raise_for_status r of
                Some e \<Rightarrow> Inl e
              | None \<Rightarrow>
                  (case json r of
                     Inl e \<Rightarrow> Inl e
                   | Inr data \<Rightarrow>
                       (case py_get data ''models'' (PList []) of
                          Inl e \<Rightarrow> Inl e
                        | Inr ms \<Rightarrow>
                            (case models_names ms of
                               Inl e \<Rightarrow> Inl e
                             | Inr names \<Rightarrow> Inr (PDict [(''names'', PList names), (''raw'', data)]))))))
      in (case tried of Inl e \<Rightarrow> Inl (models_except e) | Inr v \<Rightarrow> Inr v))"

subsection \<open>The wire contract\<close>

text \<open>
  Ollama answers \<^verbatim>\<open>/api/generate\<close> with one JSON object per line, each with or without a
  \<^verbatim>\<open>"response"\<close> string. \<open>wire_line\<close> holds of such a line, of an empty line and of a line
  that \<^verbatim>\<open>json.loads\<close> rejects with \<^verbatim>\<open>JSONDecodeError\<close>; \<open>fragments\<close> are the
  \<^verbatim>\<open>"response"\<close> strings of the objects among the lines, in order.
\<close>

fun wire_line :: "line \<Rightarrow> bool" where
  "wire_line Empty = True"
| "wire_line (Fails e) = (e = JSONDecodeError)"
| "wire_line (Decodes (PDict items)) =
     (case map_of items ''response'' of None \<Rightarrow> True | Some (PStr s) \<Rightarrow> True | Some v \<Rightarrow> False)"
| "wire_line (Decodes v) = False"

fun fragments :: "line list \<Rightarrow> string list" where
  "fragments [] = []"
| "fragments (Decodes (PDict items) # rest) =
     (case map_of items ''response'' of Some (PStr s) \<Rightarrow> s # fragments rest | _ \<Rightarrow> fragments rest)"
| "fragments (l # rest) = fragments rest"

text \<open>
  \<^verbatim>\<open>/api/tags\<close> answers with \<^verbatim>\<open>{"models": [{"name": ...}, ...]}\<close>. \<open>model_name\<close> is the
  name of one entry of the list when it has one that is not empty (not falsy).
\<close>

fun is_dict :: "pyval \<Rightarrow> bool" where
  "is_dict (PDict items) = True"
| "is_dict v = False"

fun model_name :: "pyval \<Rightarrow> pyval option" where
  "model_name (PDict items) =
     (case map_of items ''name'' of None \<Rightarrow> None | Some v \<Rightarrow> if truthy v then Some v else None)"
| "model_name v = None"

section \<open>Properties\<close>

subsection \<open>The two loops\<close>

text \<open>The aggregator's loop appends exactly what the relay's loop yields, and fails where it fails.\<close>

lemma loops_agree:
  "chat_full_loop ls chunks =
     (case chat_stream_loop ls of (ys, None) \<Rightarrow> Inr (chunks @ ys) | (ys, Some e) \<Rightarrow> Inl e)"
proof (induction ls arbitrary: chunks)
  case Nil
  then show ?case by simp
next
  case (Cons l ls)
  show ?case
  proof (cases l)
    case Empty
    then show ?thesis using Cons.IH by simp
  next
    case (Fails e)
    then show ?thesis using Cons.IH by simp
  next
    case (Decodes obj)
    then show ?thesis using Cons.IH
      by (auto split: sum.splits bool.splits prod.splits option.splits)
  qed
qed

lemma stream_loop_wire:
  "list_all wire_line ls \<Longrightarrow> chat_stream_loop ls = (map PStr (fragments ls), None)"
proof (induction ls)
  case Nil
  then show ?case by simp
next
  case (Cons l ls)
  then show ?case
    by (cases l rule: wire_line.cases) (auto split: option.splits pyval.splits)
qed

lemma full_loop_wire:
  "list_all wire_line ls \<Longrightarrow> chat_full_loop ls chunks = Inr (chunks @ map PStr (fragments ls))"
  by (simp add: loops_agree stream_loop_wire)

lemma join_strs: "join (map PStr ss) = Inr (concat ss)"
  by (induction ss) auto

subsection \<open>Aggregation and relay of a complete stream\<close>

text \<open>
  Claim C1, as amended. When the upstream answers the request without an error status and
  delivers its whole body, and every line of the body is empty, rejected by the JSON decoder
  or a JSON object whose \<^verbatim>\<open>"response"\<close>, if any, is a string, then \<^verbatim>\<open>/chat\<close> returns the
  request's parameters and, as \<^verbatim>\<open>"response"\<close>, the concatenation of the fragments in
  order, and \<^verbatim>\<open>/stream\<close> yields exactly the fragments in order and then ends.
\<close>

theorem chat_concatenates_fragments:
  assumes "generate u (make_payload prompt model temperature top_p max_tokens) = Inr r"
    and "raise_for_status r = None"
    and "iter_lines_raises r = None"
    and "list_all wire_line (iter_lines r)"
  shows "fst (chat_full prompt model temperature top_p max_tokens u) =
           Inr (PDict
             [(''model'', PStr model),
              (''prompt'', PStr prompt),
              (''temperature'', PFloat temperature),
              (''top_p'', PFloat top_p),
              (''max_tokens'', PInt max_tokens),
              (''response'', PStr (concat (fragments (iter_lines r))))])
         \<and> fst (chat_stream prompt model temperature top_p max_tokens u) =
           (map PStr (fragments (iter_lines r)), None)"
  using assms
  by (simp add: chat_full_def chat_stream_def requests_post_def full_loop_wire
      stream_loop_wire join_strs)

text \<open>
  The stub of the specification: the body \<^verbatim>\<open>{"response":"Hel"}\<close>, \<^verbatim>\<open>{"response":"lo"}\<close>
  gives \<^verbatim>\<open>"Hello"\<close> from \<^verbatim>\<open>/chat\<close>, and \<^verbatim>\<open>"Hel"\<close> then \<^verbatim>\<open>"lo"\<close> from \<^verbatim>\<open>/stream\<close>.
\<close>

theorem chat_hello_witness:
  "fst (chat_full ''hi'' ''phi3:mini'' 0.7 0.9 512
     \<lparr>generate = (\<lambda>payload. Inr
        \<lparr>raise_for_status = None,
         iter_lines =
           [Decodes (PDict [(''response'', PStr ''Hel'')]),
            Decodes (PDict [(''response'', PStr ''lo'')])],
         iter_lines_raises = None\<rparr>),
       post_calls = []\<rparr>) =
     Inr (PDict
       [(''model'', PStr ''phi3:mini''),
        (''prompt'', PStr ''hi''),
        (''temperature'', PFloat 0.7),
        (''top_p'', PFloat 0.9),
        (''max_tokens'', PInt 512),
        (''response'', PStr ''Hello'')])
   \<and> fst (chat_stream ''hi'' ''phi3:mini'' 0.7 0.9 512
     \<lparr>generate = (\<lambda>payload. Inr
        \<lparr>raise_for_status = None,
         iter_lines =
           [Decodes (PDict [(''response'', PStr ''Hel'')]),
            Decodes (PDict [(''response'', PStr ''lo'')])],
         iter_lines_raises = None\<rparr>),
       post_calls = []\<rparr>) =
     ([PStr ''Hel'', PStr ''lo''], None)"
  using chat_concatenates_fragments
    [of "\<lparr>generate = (\<lambda>payload. Inr
        \<lparr>raise_for_status = None,
         iter_lines =
           [Decodes (PDict [(''response'', PStr ''Hel'')]),
            Decodes (PDict [(''response'', PStr ''lo'')])],
         iter_lines_raises = None\<rparr>),
       post_calls = []\<rparr>" "''hi''" "''phi3:mini''" "0.7" "0.9" 512
       "\<lparr>raise_for_status = None,
         iter_lines =
           [Decodes (PDict [(''response'', PStr ''Hel'')]),
            Decodes (PDict [(''response'', PStr ''lo'')])],
         iter_lines_raises = None\<rparr>"]
  by simp

text \<open>
  Claim C1 as it is written speaks of every finite line stream. The body
  \<^verbatim>\<open>{"response":"Hel"}\<close>, \<^verbatim>\<open>5\<close> is one: its second line is JSON and has no fragment, so
  the claim promises \<^verbatim>\<open>"Hel"\<close>; \<^verbatim>\<open>"response" in 5\<close> raises \<^verbatim>\<open>TypeError\<close>, which no
  \<^verbatim>\<open>except\<close> clause of \<^verbatim>\<open>_chat_full\<close> catches.
\<close>

theorem chat_number_line_counterexample:
  "fst (chat_full ''hi'' ''phi3:mini'' 0.7 0.9 512
     \<lparr>generate = (\<lambda>payload. Inr
        \<lparr>raise_for_status = None,
         iter_lines = [Decodes (PDict [(''response'', PStr ''Hel'')]), Decodes (PInt 5)],
         iter_lines_raises = None\<rparr>),
       post_calls = []\<rparr>) = Inl TypeError"
  by (simp add: chat_full_def requests_post_def)

subsection \<open>Aggregator against relay\<close>



subsection \<open>Lines the loops do not skip\<close>

text \<open>
  Claim C3 says that a line which does not parse and a parsed line without a
  \<^verbatim>\<open>"response"\<close> field are skipped and never fail the request. The code skips empty lines,
  lines with a \<^verbatim>\<open>JSONDecodeError\<close> and objects without the key. It does not skip the
  line \<^verbatim>\<open>null\<close> (JSON, no field: \<^verbatim>\<open>"response" in None\<close> raises \<^verbatim>\<open>TypeError\<close>) nor a line
  that is not UTF-8 (\<^verbatim>\<open>line.decode\<close> raises \<^verbatim>\<open>UnicodeDecodeError\<close>, which is not a
  \<^verbatim>\<open>JSONDecodeError\<close>): \<^verbatim>\<open>/chat\<close> fails with the exception, and \<^verbatim>\<open>/stream\<close> breaks
  off after the fragment it has already sent.
\<close>

theorem unskipped_lines_fail:
  "fst (chat_full ''hi'' ''phi3:mini'' 0.7 0.9 512
     \<lparr>generate = (\<lambda>payload. Inr
        \<lparr>raise_for_status = None,
         iter_lines = [Decodes (PDict [(''response'', PStr ''Hel'')]), Decodes PNone],
         iter_lines_raises = None\<rparr>),
       post_calls = []\<rparr>) = Inl TypeError
   \<and> fst (chat_stream ''hi'' ''phi3:mini'' 0.7 0.9 512
     \<lparr>generate = (\<lambda>payload. Inr
        \<lparr>raise_for_status = None,
         iter_lines = [Decodes (PDict [(''response'', PStr ''Hel'')]), Decodes PNone],
         iter_lines_raises = None\<rparr>),
       post_calls = []\<rparr>) = ([PStr ''Hel''], Some TypeError)
   \<and> fst (chat_full ''hi'' ''phi3:mini'' 0.7 0.9 512
     \<lparr>generate = (\<lambda>payload. Inr
        \<lparr>raise_for_status = None,
         iter_lines = [Decodes (PDict [(''response'', PStr ''Hel'')]), Fails UnicodeDecodeError],
         iter_lines_raises = None\<rparr>),
       post_calls = []\<rparr>) = Inl UnicodeDecodeError
   \<and> fst (chat_stream ''hi'' ''phi3:mini'' 0.7 0.9 512
     \<lparr>generate = (\<lambda>payload. Inr
        \<lparr>raise_for_status = None,
         iter_lines = [Decodes (PDict [(''response'', PStr ''Hel'')]), Fails UnicodeDecodeError],
         iter_lines_raises = None\<rparr>),
       post_calls = []\<rparr>) = ([PStr ''Hel''], Some UnicodeDecodeError)"
  by (simp add: chat_full_def chat_stream_def requests_post_def)

subsection \<open>Upstream failures of \<^verbatim>\<open>/chat\<close>\<close>

text \<open>
  Claim C4. When \<^verbatim>\<open>requests.post\<close> raises, or the response has an error status and
  \<^verbatim>\<open>raise_for_status\<close> raises, \<^verbatim>\<open>/chat\<close> raises an \<^verbatim>\<open>HTTPException\<close> and returns no
  result: status 504 for a timeout, status 502 with the error's text for every other
  request exception.
\<close>

theorem chat_upstream_failure:
  assumes "generate u (make_payload prompt model temperature top_p max_tokens) = Inl e
           \<or> (\<exists>r. generate u (make_payload prompt model temperature top_p max_tokens) = Inr r
                 \<and> raise_for_status r = Some e)"
  shows "(\<forall>m. e = Timeout m \<longrightarrow>
            fst (chat_full prompt model temperature top_p max_tokens u) =
              Inl (HTTPException 504 ''Timeout talking to Ollama''))
       \<and> (\<forall>m. e = RequestException m \<longrightarrow>
            fst (chat_full prompt model temperature top_p max_tokens u) =
              Inl (HTTPException 502 (''Ollama error: '' @ m)))"
  using assms by (auto simp: chat_full_def requests_post_def)

text \<open>An upstream that times out, and one that answers with status 500.\<close>

theorem chat_upstream_failure_witness:
  "fst (chat_full ''hi'' ''phi3:mini'' 0.7 0.9 512
     \<lparr>generate = (\<lambda>payload. Inl (Timeout ''Read timed out.'')), post_calls = []\<rparr>) =
     Inl (HTTPException 504 ''Timeout talking to Ollama'')
   \<and> fst (chat_full ''hi'' ''phi3:mini'' 0.7 0.9 512
     \<lparr>generate = (\<lambda>payload. Inr
        \<lparr>raise_for_status = Some (RequestException ''500 Server Error''),
         iter_lines = [Decodes (PDict [(''error'', PStr ''model not found'')])],
         iter_lines_raises = None\<rparr>),
       post_calls = []\<rparr>) =
     Inl (HTTPException 502 ''Ollama error: 500 Server Error'')"
  using chat_upstream_failure
    [of "\<lparr>generate = (\<lambda>payload. Inl (Timeout ''Read timed out.'')), post_calls = []\<rparr>"
        "''hi''" "''phi3:mini''" "0.7" "0.9" 512 "Timeout ''Read timed out.''"]
    chat_upstream_failure
    [of "\<lparr>generate = (\<lambda>payload. Inr
        \<lparr>raise_for_status = Some (RequestException ''500 Server Error''),
         iter_lines = [Decodes (PDict [(''error'', PStr ''model not found'')])],
         iter_lines_raises = None\<rparr>),
       post_calls = []\<rparr>"
        "''hi''" "''phi3:mini''" "0.7" "0.9" 512 "RequestException ''500 Server Error''"]
  by simp

text \<open>
  Claim C9. When the iteration over the body raises after the loop has gone through some
  lines and collected their fragments, \<^verbatim>\<open>/chat\<close> raises the \<^verbatim>\<open>HTTPException\<close> (504 for a
  timeout, 502 otherwise) and the fragments collected are dropped: no result is returned.
\<close>

theorem chat_discards_partial:
  assumes "generate u (make_payload prompt model temperature top_p max_tokens) = Inr r"
    and "raise_for_status r = None"
    and "chat_full_loop (iter_lines r) [] = Inr chunks"
    and "iter_lines_raises r = Some e"
  shows "(\<forall>m. e = Timeout m \<longrightarrow>
            fst (chat_full prompt model temperature top_p max_tokens u) =
              Inl (HTTPException 504 ''Timeout talking to Ollama''))
       \<and> (\<forall>m. e = RequestException m \<longrightarrow>
            fst (chat_full prompt model temperature top_p max_tokens u) =
              Inl (HTTPException 502 (''Ollama error: '' @ m)))"
  using assms by (auto simp: chat_full_def requests_post_def)

text \<open>The fragment \<^verbatim>\<open>"Hel"\<close> has arrived when the read times out, or the connection breaks.\<close>

theorem chat_discards_partial_witness:
  "chat_full_loop [Decodes (PDict [(''response'', PStr ''Hel'')])] [] = Inr [PStr ''Hel'']
   \<and> fst (chat_full ''hi'' ''phi3:mini'' 0.7 0.9 512
     \<lparr>generate = (\<lambda>payload. Inr
        \<lparr>raise_for_status = None,
         iter_lines = [Decodes (PDict [(''response'', PStr ''Hel'')])],
         iter_lines_raises = Some (Timeout ''Read timed out.'')\<rparr>),
       post_calls = []\<rparr>) =
     Inl (HTTPException 504 ''Timeout talking to Ollama'')
   \<and> fst (chat_full ''hi'' ''phi3:mini'' 0.7 0.9 512
     \<lparr>generate = (\<lambda>payload. Inr
        \<lparr>raise_for_status = None,
         iter_lines = [Decodes (PDict [(''response'', PStr ''Hel'')])],
         iter_lines_raises = Some (RequestException ''Connection broken'')\<rparr>),
       post_calls = []\<rparr>) =
     Inl (HTTPException 502 ''Ollama error: Connection broken'')"
  using chat_discards_partial
    [of "\<lparr>generate = (\<lambda>payload. Inr
        \<lparr>raise_for_status = None,
         iter_lines = [Decodes (PDict [(''response'', PStr ''Hel'')])],
         iter_lines_raises = Some (Timeout ''Read timed out.'')\<rparr>),
       post_calls = []\<rparr>" "''hi''" "''phi3:mini''" "0.7" "0.9" 512
       "\<lparr>raise_for_status = None,
         iter_lines = [Decodes (PDict [(''response'', PStr ''Hel'')])],
         iter_lines_raises = Some (Timeout ''Read timed out.'')\<rparr>"
       "[PStr ''Hel'']" "Timeout ''Read timed out.''"]
    chat_discards_partial
    [of "\<lparr>generate = (\<lambda>payload. Inr
        \<lparr>raise_for_status = None,
         iter_lines = [Decodes (PDict [(''response'', PStr ''Hel'')])],
         iter_lines_raises = Some (RequestException ''Connection broken'')\<rparr>),
       post_calls = []\<rparr>" "''hi''" "''phi3:mini''" "0.7" "0.9" 512
       "\<lparr>raise_for_status = None,
         iter_lines = [Decodes (PDict [(''response'', PStr ''Hel'')])],
         iter_lines_raises = Some (RequestException ''Connection broken'')\<rparr>"
       "[PStr ''Hel'']" "RequestException ''Connection broken''"]
  by simp

subsection \<open>Upstream failures of \<^verbatim>\<open>/stream\<close>\<close>

text \<open>
  Claim C5. When a timeout is raised during a \<^verbatim>\<open>/stream\<close> request (by \<^verbatim>\<open>requests.post\<close>,
  by \<^verbatim>\<open>raise_for_status\<close>, or by the iteration after the relay has yielded the fragments
  \<open>ys\<close>), the relay yields one more fragment, the notice \<^verbatim>\<open>[Timeout talking to Ollama]\<close>,
  and ends without an exception. Every other request exception gives in the same way the
  one fragment \<^verbatim>\<open>[Ollama error: ...]\<close> with the error's text, and then the stream ends.
\<close>

theorem stream_failure_in_band:
  assumes "(generate u (make_payload prompt model temperature top_p max_tokens) = Inl e \<and> ys = [])
           \<or> (\<exists>r. generate u (make_payload prompt model temperature top_p max_tokens) = Inr r
                 \<and> raise_for_status r = Some e \<and> ys = [])
           \<or> (\<exists>r. generate u (make_payload prompt model temperature top_p max_tokens) = Inr r
                 \<and> raise_for_status r = None
                 \<and> chat_stream_loop (iter_lines r) = (ys, None)
                 \<and> iter_lines_raises r = Some e)"
  shows "(\<forall>m. e = Timeout m \<longrightarrow>
            fst (chat_stream prompt model temperature top_p max_tokens u) =
              (ys @ [PStr ''[Timeout talking to Ollama]''], None))
       \<and> (\<forall>m. e = RequestException m \<longrightarrow>
            fst (chat_stream prompt model temperature top_p max_tokens u) =
              (ys @ [PStr (''[Ollama error: '' @ m @ '']'')], None))"
  using assms by (auto simp: chat_stream_def requests_post_def)

text \<open>
  An upstream that never answers in time, and a connection that breaks after \<^verbatim>\<open>"Hel"\<close>.
\<close>

theorem stream_failure_in_band_witness:
  "fst (chat_stream ''hi'' ''phi3:mini'' 0.7 0.9 512
     \<lparr>generate = (\<lambda>payload. Inl (Timeout ''Read timed out.'')), post_calls = []\<rparr>) =
     ([PStr ''[Timeout talking to Ollama]''], None)
   \<and> chat_stream_loop [Decodes (PDict [(''response'', PStr ''Hel'')])] = ([PStr ''Hel''], None)
   \<and> fst (chat_stream ''hi'' ''phi3:mini'' 0.7 0.9 512
     \<lparr>generate = (\<lambda>payload. Inr
        \<lparr>raise_for_status = None,
         iter_lines = [Decodes (PDict [(''response'', PStr ''Hel'')])],
         iter_lines_raises = Some (RequestException ''Connection broken'')\<rparr>),
       post_calls = []\<rparr>) =
     ([PStr ''Hel'', PStr ''[Ollama error: Connection broken]''], None)"
  using stream_failure_in_band
    [of "\<lparr>generate = (\<lambda>payload. Inl (Timeout ''Read timed out.'')), post_calls = []\<rparr>"
        "''hi''" "''phi3:mini''" "0.7" "0.9" 512 "Timeout ''Read timed out.''" "[]"]
    stream_failure_in_band
    [of "\<lparr>generate = (\<lambda>payload. Inr
        \<lparr>raise_for_status = None,
         iter_lines = [Decodes (PDict [(''response'', PStr ''Hel'')])],
         iter_lines_raises = Some (RequestException ''Connection broken'')\<rparr>),
       post_calls = []\<rparr>"
        "''hi''" "''phi3:mini''" "0.7" "0.9" 512 "RequestException ''Connection broken''"
        "[PStr ''Hel'']"]
  by simp

subsection \<open>Defaults of the generation parameters\<close>

text \<open>
  Claim C6, as amended. \<^verbatim>\<open>POST /chat\<close> uses the default of a parameter exactly when the
  body leaves the field out, gives \<^verbatim>\<open>null\<close> or gives a falsy value (the empty string,
  zero), and the given value otherwise. \<^verbatim>\<open>GET /chat\<close> uses the default exactly when
  the query leaves the parameter out, and the given value otherwise, falsy or not.
\<close>

theorem defaults_applied:
  "chat_post (ChatIn_of_body prompt model temperature top_p max_tokens) u =
     chat_full prompt
       (case model of Given s \<Rightarrow> if s = [] then ''phi3:mini'' else s | _ \<Rightarrow> ''phi3:mini'')
       (case temperature of Given x \<Rightarrow> if x = 0 then 0.7 else x | _ \<Rightarrow> 0.7)
       (case top_p of Given x \<Rightarrow> if x = 0 then 0.9 else x | _ \<Rightarrow> 0.9)
       (case max_tokens of Given i \<Rightarrow> if i = 0 then 512 else i | _ \<Rightarrow> 512) u
   \<and> chat_get prompt qmodel qtemperature qtop_p qmax_tokens u =
     chat_full prompt
       (case qmodel of None \<Rightarrow> ''phi3:mini'' | Some s \<Rightarrow> s)
       (case qtemperature of None \<Rightarrow> 0.7 | Some x \<Rightarrow> x)
       (case qtop_p of None \<Rightarrow> 0.9 | Some x \<Rightarrow> x)
       (case qmax_tokens of None \<Rightarrow> 512 | Some i \<Rightarrow> i) u"
proof -
  have m: "or_str (optional_field model ''phi3:mini'') ''phi3:mini'' =
      (case model of Given s \<Rightarrow> if s = [] then ''phi3:mini'' else s | _ \<Rightarrow> ''phi3:mini'')"
    by (cases model) simp_all
  have t: "or_float (optional_field temperature 0.7) 0.7 =
      (case temperature of Given x \<Rightarrow> if x = 0 then 0.7 else x | _ \<Rightarrow> 0.7)"
    by (cases temperature) simp_all
  have p: "or_float (optional_field top_p 0.9) 0.9 =
      (case top_p of Given x \<Rightarrow> if x = 0 then 0.9 else x | _ \<Rightarrow> 0.9)"
    by (cases top_p) simp_all
  have k: "or_int (optional_field max_tokens 512) 512 =
      (case max_tokens of Given i \<Rightarrow> if i = 0 then 512 else i | _ \<Rightarrow> 512)"
    by (cases max_tokens) simp_all
  have post: "chat_post (ChatIn_of_body prompt model temperature top_p max_tokens) u =
     chat_full prompt
       (case model of Given s \<Rightarrow> if s = [] then ''phi3:mini'' else s | _ \<Rightarrow> ''phi3:mini'')
       (case temperature of Given x \<Rightarrow> if x = 0 then 0.7 else x | _ \<Rightarrow> 0.7)
       (case top_p of Given x \<Rightarrow> if x = 0 then 0.9 else x | _ \<Rightarrow> 0.9)
       (case max_tokens of Given i \<Rightarrow> if i = 0 then 512 else i | _ \<Rightarrow> 512) u"
    unfolding ChatIn_of_body_def chat_post.simps m t p k ..
  have get: "chat_get prompt qmodel qtemperature qtop_p qmax_tokens u =
     chat_full prompt
       (case qmodel of None \<Rightarrow> ''phi3:mini'' | Some s \<Rightarrow> s)
       (case qtemperature of None \<Rightarrow> 0.7 | Some x \<Rightarrow> x)
       (case qtop_p of None \<Rightarrow> 0.9 | Some x \<Rightarrow> x)
       (case qmax_tokens of None \<Rightarrow> 512 | Some i \<Rightarrow> i) u"
    unfolding chat_get_def
    by (cases qmodel; cases qtemperature; cases qtop_p; cases qmax_tokens) simp_all
  from post get show ?thesis ..
qed

text \<open>
  Claim C6 as it is written lets \<^verbatim>\<open>GET /chat\<close> fall back to the default for a falsy value
  too. The request \<^verbatim>\<open>GET /chat?prompt=hi&temperature=0&max_tokens=0\<close> sends the temperature
  0 and \<^verbatim>\<open>num_predict\<close> 0 upstream and returns them, not 0.7 and 512.
\<close>

theorem chat_get_zero_temperature_counterexample:
  "fst (chat_get ''hi'' None (Some 0) None (Some 0)
     \<lparr>generate = (\<lambda>payload. Inr
        \<lparr>raise_for_status = None,
         iter_lines = [Decodes (PDict [(''response'', PStr ''ok'')])],
         iter_lines_raises = None\<rparr>),
       post_calls = []\<rparr>) =
     Inr (PDict
       [(''model'', PStr ''phi3:mini''),
        (''prompt'', PStr ''hi''),
        (''temperature'', PFloat 0),
        (''top_p'', PFloat 0.9),
        (''max_tokens'', PInt 0),
        (''response'', PStr ''ok'')])
   \<and> post_calls (snd (chat_get ''hi'' None (Some 0) None (Some 0)
     \<lparr>generate = (\<lambda>payload. Inr
        \<lparr>raise_for_status = None,
         iter_lines = [Decodes (PDict [(''response'', PStr ''ok'')])],
         iter_lines_raises = None\<rparr>),
       post_calls = []\<rparr>)) =
     [PDict
       [(''model'', PStr ''phi3:mini''),
        (''prompt'', PStr ''hi''),
        (''options'', PDict
           [(''temperature'', PFloat 0), (''top_p'', PFloat 0.9), (''num_predict'', PInt 0)])]]"
  by (simp add: chat_get_def chat_full_def requests_post_def make_payload_def)

subsection \<open>The payload sent upstream\<close>

text \<open>Both \<^verbatim>\<open>_chat_full\<close> and \<^verbatim>\<open>_chat_stream\<close> post once, the payload of their arguments.\<close>

lemma chat_full_posts:
  "post_calls (snd (chat_full prompt model temperature top_p max_tokens u)) =
     post_calls u @ [make_payload prompt model temperature top_p max_tokens]"
  by (simp add: chat_full_def requests_post_def Let_def split: sum.splits)

lemma chat_stream_posts:
  "post_calls (snd (chat_stream prompt model temperature top_p max_tokens u)) =
     post_calls u @ [make_payload prompt model temperature top_p max_tokens]"
  by (simp add: chat_stream_def requests_post_def Let_def split: sum.splits option.splits prod.splits)

text \<open>
  Claim C7. The payload that \<^verbatim>\<open>/chat\<close> and \<^verbatim>\<open>/stream\<close> post to the generate endpoint is
  the dict of \<^verbatim>\<open>_make_payload\<close>: its keys are \<^verbatim>\<open>model\<close>, \<^verbatim>\<open>prompt\<close> and \<^verbatim>\<open>options\<close>, and
  the keys of the options are \<^verbatim>\<open>temperature\<close>, \<^verbatim>\<open>top_p\<close> and \<^verbatim>\<open>num_predict\<close>, with the
  values of the request; \<^verbatim>\<open>num_predict\<close> holds the value of \<^verbatim>\<open>max_tokens\<close>, and there
  is no key \<^verbatim>\<open>max_tokens\<close>.
\<close>

theorem payload_shape:
  "\<exists>items opts.
     post_calls (snd (chat_full prompt model temperature top_p max_tokens u)) =
       post_calls u @ [PDict items]
     \<and> post_calls (snd (chat_stream prompt model temperature top_p max_tokens u)) =
       post_calls u @ [PDict items]
     \<and> make_payload prompt model temperature top_p max_tokens = PDict items
     \<and> map fst items = [''model'', ''prompt'', ''options'']
     \<and> map_of items ''model'' = Some (PStr model)
     \<and> map_of items ''prompt'' = Some (PStr prompt)
     \<and> map_of items ''options'' = Some (PDict opts)
     \<and> map fst opts = [''temperature'', ''top_p'', ''num_predict'']
     \<and> map_of opts ''temperature'' = Some (PFloat temperature)
     \<and> map_of opts ''top_p'' = Some (PFloat top_p)
     \<and> map_of opts ''num_predict'' = Some (PInt max_tokens)
     \<and> map_of opts ''max_tokens'' = None"
  by (simp add: chat_full_posts chat_stream_posts make_payload_def)


subsection \<open>The model list\<close>

lemma names_of_dicts:
  "list_all is_dict ms \<Longrightarrow> names_of ms = Inr (List.map_filter model_name ms)"
proof (induction ms)
  case Nil
  then show ?case by (simp add: List.map_filter_simps)
next
  case (Cons m ms)
  then show ?case
    by (cases m) (auto simp: List.map_filter_simps split: option.splits)
qed

text \<open>
  Claim C8. When \<^verbatim>\<open>/api/tags\<close> answers without an error status with a tags object (a
  dict whose \<^verbatim>\<open>"models"\<close> is a list of dicts), \<^verbatim>\<open>GET /models\<close> returns as \<^verbatim>\<open>"names"\<close>
  the names of the entries that have a name that is not empty, one for each and in order,
  and as \<^verbatim>\<open>"raw"\<close> the object itself. With an empty list of models the names are the
  empty list, and no error is raised.
\<close>

theorem models_names_and_raw:
  assumes "raise_for_status r = None"
    and "json r = Inr (PDict items)"
    and "map_of items ''models'' = Some (PList ms)"
    and "list_all is_dict ms"
  shows "models (Inr r) =
           Inr (PDict [(''names'', PList (List.map_filter model_name ms)), (''raw'', PDict items)])"
  using assms by (simp add: models_def names_of_dicts)

text \<open>
  Four models, one with an empty name and one without a name; and no model at all.
\<close>

theorem models_names_and_raw_witness:
  "models (Inr \<lparr>raise_for_status = None,
       json = Inr (PDict [(''models'', PList
         [PDict [(''name'', PStr ''phi3:mini''), (''size'', PInt 2176178913)],
          PDict [(''name'', PStr '''')],
          PDict [(''size'', PInt 1)],
          PDict [(''name'', PStr ''llama3:8b'')]])])\<rparr>) =
     Inr (PDict
       [(''names'', PList [PStr ''phi3:mini'', PStr ''llama3:8b'']),
        (''raw'', PDict [(''models'', PList
         [PDict [(''name'', PStr ''phi3:mini''), (''size'', PInt 2176178913)],
          PDict [(''name'', PStr '''')],
          PDict [(''size'', PInt 1)],
          PDict [(''name'', PStr ''llama3:8b'')]])])])
   \<and> models (Inr \<lparr>raise_for_status = None,
       json = Inr (PDict [(''models'', PList [])])\<rparr>) =
     Inr (PDict [(''names'', PList []), (''raw'', PDict [(''models'', PList [])])])"
  using models_names_and_raw
    [of "\<lparr>raise_for_status = None,
       json = Inr (PDict [(''models'', PList
         [PDict [(''name'', PStr ''phi3:mini''), (''size'', PInt 2176178913)],
          PDict [(''name'', PStr '''')],
          PDict [(''size'', PInt 1)],
          PDict [(''name'', PStr ''llama3:8b'')]])])\<rparr>"
        "[(''models'', PList
         [PDict [(''name'', PStr ''phi3:mini''), (''size'', PInt 2176178913)],
          PDict [(''name'', PStr '''')],
          PDict [(''size'', PInt 1)],
          PDict [(''name'', PStr ''llama3:8b'')]])]"
        "[PDict [(''name'', PStr ''phi3:mini''), (''size'', PInt 2176178913)],
          PDict [(''name'', PStr '''')],
          PDict [(''size'', PInt 1)],
          PDict [(''name'', PStr ''llama3:8b'')]]"]
    models_names_and_raw
    [of "\<lparr>raise_for_status = None, json = Inr (PDict [(''models'', PList [])])\<rparr>"
        "[(''models'', PList [])]" "[]"]
  by (simp add: List.map_filter_simps)

end
